theory Spec2Isabelle
  imports Main "HOL-Library.Multiset"
begin

section \<open>JavaScript values used by the three services\<close>

text \<open>
  The request body, the job payload and the query string carry fields that are either a
  string or absent (\<open>undefined\<close>); \<open>string option\<close> models them, with \<open>None\<close> for
  an absent field. \<open>truthy\<close> is JavaScript's boolean coercion on such a value, as used by
  \<^verbatim>\<open>!site_id\<close>, \<^verbatim>\<open>if (event.path)\<close> and \<^verbatim>\<open>.filter(Boolean)\<close>: absent and the empty string are
  falsy.
\<close>

definition truthy :: "string option \<Rightarrow> bool" where
  "truthy v = (case v of None \<Rightarrow> False | Some s \<Rightarrow> s \<noteq> [])"

definition str_of :: "string option \<Rightarrow> string" where
  "str_of v = (case v of None \<Rightarrow> [] | Some s \<Rightarrow> s)"

text \<open>
  A JavaScript \<open>Date\<close> holds a time value in milliseconds since the epoch, or is an
  Invalid Date (\<open>None\<close>). What \<^verbatim>\<open>Date.parse\<close> recognises and how \<^verbatim>\<open>setDate\<close> steps one
  calendar day in the host's time zone belong to the JavaScript host, so both are
  parameters of the model.
\<close>

record host =
  date_parse :: "string \<Rightarrow> int option"
  next_day :: "int \<Rightarrow> int"

definition new_Date :: "host \<Rightarrow> string option \<Rightarrow> int option" where
  "new_Date h v = (case v of None \<Rightarrow> None | Some s \<Rightarrow> date_parse h s)"

text \<open>\<^verbatim>\<open>d.setDate(d.getDate() + 1)\<close>; an Invalid Date stays invalid.\<close>

definition setDate_plus_1 :: "host \<Rightarrow> int option \<Rightarrow> int option" where
  "setDate_plus_1 h d = (case d of None \<Rightarrow> None | Some t \<Rightarrow> Some (next_day h t))"

subsection \<open>A host in zone UTC reading the ECMAScript date-time format\<close>

text \<open>
  \<open>utc_host\<close> is one concrete host: its zone is UTC, so a calendar day is 86400000 ms, and
  its parser reads the forms \<^verbatim>\<open>YYYY-MM-DD\<close>, \<^verbatim>\<open>YYYY-MM-DDTHH:mm:ssZ\<close> and
  \<^verbatim>\<open>YYYY-MM-DDTHH:mm:ss.sssZ\<close> of the ECMAScript date-time string format and nothing else.
\<close>

definition digit_of :: "char \<Rightarrow> nat option" where
  "digit_of c = (let n = (of_char c :: nat) in if 48 \<le> n \<and> n \<le> 57 then Some (n - 48) else None)"

fun digits_acc :: "nat \<Rightarrow> string \<Rightarrow> nat option" where
  "digits_acc n [] = Some n"
| "digits_acc n (c # cs) =
     (case digit_of c of None \<Rightarrow> None | Some d \<Rightarrow> digits_acc (10 * n + d) cs)"

definition decimal :: "string \<Rightarrow> nat option" where
  "decimal s = (if s = [] then None else digits_acc 0 s)"

definition leap :: "nat \<Rightarrow> bool" where
  "leap y = (y mod 4 = 0 \<and> (y mod 100 \<noteq> 0 \<or> y mod 400 = 0))"

definition days_in_month :: "nat \<Rightarrow> nat \<Rightarrow> nat" where
  "days_in_month y m =
     (if m = 2 then (if leap y then 29 else 28)
      else if m = 4 \<or> m = 6 \<or> m = 9 \<or> m = 11 then 30 else 31)"

definition days_from_civil :: "nat \<Rightarrow> nat \<Rightarrow> nat \<Rightarrow> int" where
  "days_from_civil y m d =
     (let y' = (if m \<le> 2 then int y - 1 else int y);
          era = y' div 400;
          yoe = y' - era * 400;
          mp = (if m > 2 then int m - 3 else int m + 9);
          doy = (153 * mp + 2) div 5 + int d - 1;
          doe = yoe * 365 + yoe div 4 - yoe div 100 + doy
      in era * 146097 + doe - 719468)"

definition parse_ymd :: "string \<Rightarrow> int option" where
  "parse_ymd s =
     (if length s = 10 \<and> s ! 4 = CHR ''-'' \<and> s ! 7 = CHR ''-'' then
        (case (decimal (take 4 s), decimal (take 2 (drop 5 s)), decimal (drop 8 s)) of
           (Some y, Some m, Some d) \<Rightarrow>
             if 1 \<le> m \<and> m \<le> 12 \<and> 1 \<le> d \<and> d \<le> days_in_month y m
             then Some (days_from_civil y m d) else None
         | _ \<Rightarrow> None)
      else None)"

definition parse_hms :: "string \<Rightarrow> nat option" where
  "parse_hms s =
     (if length s = 8 \<and> s ! 2 = CHR '':'' \<and> s ! 5 = CHR '':'' then
        (case (decimal (take 2 s), decimal (take 2 (drop 3 s)), decimal (drop 6 s)) of
           (Some hh, Some mm, Some ss) \<Rightarrow>
             if hh < 24 \<and> mm < 60 \<and> ss < 60
             then Some ((hh * 60 + mm) * 60000 + ss * 1000) else None
         | _ \<Rightarrow> None)
      else None)"

definition parse_time :: "string \<Rightarrow> nat option" where
  "parse_time s =
     (if s = [] then Some 0
      else if length s = 10 \<and> s ! 0 = CHR ''T'' \<and> s ! 9 = CHR ''Z'' then
        parse_hms (take 8 (drop 1 s))
      else if length s = 14 \<and> s ! 0 = CHR ''T'' \<and> s ! 9 = CHR ''.'' \<and> s ! 13 = CHR ''Z'' then
        (case (parse_hms (take 8 (drop 1 s)), decimal (take 3 (drop 10 s))) of
           (Some t, Some ms) \<Rightarrow> Some (t + ms)
         | _ \<Rightarrow> None)
      else None)"

definition utc_parse :: "string \<Rightarrow> int option" where
  "utc_parse s =
     (case (parse_ymd (take 10 s), parse_time (drop 10 s)) of
        (Some days, Some ms) \<Rightarrow> Some (days * 86400000 + int ms)
      | _ \<Rightarrow> None)"

definition utc_host :: host where
  "utc_host = \<lparr>date_parse = utc_parse, next_day = (\<lambda>t. t + 86400000)\<rparr>"

section \<open>Responses\<close>

text \<open>
  \<^verbatim>\<open>res.json(x)\<close> is \<open>Ok200 x\<close>; \<^verbatim>\<open>res.status(c).json({status: 'error', message: m})\<close> is
  \<open>Err c m\<close>.
\<close>

datatype 'a response = Ok200 'a | Err nat string

section \<open>Ingestion service: POST /event\<close>

text \<open>The five fields destructured from \<^verbatim>\<open>req.body\<close>, and again from \<^verbatim>\<open>job.data\<close>.\<close>

record payload =
  p_site_id :: "string option"
  p_event_type :: "string option"
  p_path :: "string option"
  p_user_id :: "string option"
  p_timestamp :: "string option"

text \<open>
  The BullMQ queue: the jobs added so far (name and data), and whether a call of
  \<^verbatim>\<open>eventQueue.add\<close> succeeds or throws.
\<close>

record queue =
  jobs :: "(string \<times> payload) list"
  reachable :: bool

datatype queue_error = QueueError

definition Queue_add :: "queue \<Rightarrow> string \<Rightarrow> payload \<Rightarrow> queue_error + queue" where
  "Queue_add q name data =
     (if reachable q then Inr (q\<lparr>jobs := jobs q @ [(name, data)]\<rparr>) else Inl QueueError)"

text \<open>The handler returns its response and the queue as it leaves it.\<close>

definition post_event :: "queue \<Rightarrow> payload \<Rightarrow> string response \<times> queue" where
  "post_event q body =
     (if \<not> truthy (p_site_id body) \<or> \<not> truthy (p_event_type body) \<or> \<not> truthy (p_timestamp body)
      then (Err 400 ''Missing required fields: site_id, event_type, timestamp'', q)
      else
        (case Queue_add q ''process-event''
                \<lparr>p_site_id = p_site_id body, p_event_type = p_event_type body,
                 p_path = p_path body, p_user_id = p_user_id body,
                 p_timestamp = p_timestamp body\<rparr> of
           Inr q' \<Rightarrow> (Ok200 ''accepted'', q')
         | Inl err \<Rightarrow> (Err 500 ''Failed to accept event'', q)))"

section \<open>The Event model and the store\<close>

text \<open>
  A persisted Event as the Mongoose schema declares it: \<open>site_id\<close>, \<open>event_type\<close> and
  \<open>timestamp\<close> are required, \<open>path\<close> and \<open>user_id\<close> are optional strings (\<open>None\<close> when the
  document has no such field or holds null). A timestamp is stored as milliseconds since
  the epoch. The \<open>createdAt\<close> and \<open>updatedAt\<close> fields the schema option adds are read by no
  handler and are left out.
\<close>

record event =
  site_id :: string
  event_type :: string
  path :: "string option"
  user_id :: "string option"
  timestamp :: int

text \<open>
  The \<open>events\<close> collection, in the order in which the store returns its documents, and
  whether the store answers at all.
\<close>

record store =
  events :: "event list"
  available :: bool

section \<open>Processor: the BullMQ worker\<close>

text \<open>
  The Mongoose document built by \<^verbatim>\<open>new Event({...})\<close>: the string fields as the job
  carries them, and \<^verbatim>\<open>new Date(timestamp)\<close>, which may be an Invalid Date.
\<close>

record document =
  d_site_id :: "string option"
  d_event_type :: "string option"
  d_path :: "string option"
  d_user_id :: "string option"
  d_timestamp :: "int option"

definition new_Event :: "host \<Rightarrow> payload \<Rightarrow> document" where
  "new_Event h data =
     \<lparr>d_site_id = p_site_id data, d_event_type = p_event_type data,
      d_path = p_path data, d_user_id = p_user_id data,
      d_timestamp = new_Date h (p_timestamp data)\<rparr>"

text \<open>
  \<^verbatim>\<open>event.save()\<close> first validates the document against the schema and only then writes:
  a required String must be present and not empty, the required Date must be a valid
  date (an Invalid Date is a cast failure). \<open>validate_paths\<close> lists the fields that fail.
  In \<open>save\<close> the inner case only reads the time value of a timestamp that has passed
  validation; its \<open>None\<close> branch is never taken.
\<close>

definition validate_paths :: "document \<Rightarrow> string list" where
  "validate_paths d =
     (if truthy (d_site_id d) then [] else [''site_id'']) @
     (if truthy (d_event_type d) then [] else [''event_type'']) @
     (if d_timestamp d = None then [''timestamp''] else [])"

datatype save_error = ValidationError "string list" | StoreError

definition save :: "store \<Rightarrow> document \<Rightarrow> save_error + store" where
  "save st d =
     (case validate_paths d of
        f # fs \<Rightarrow> Inl (ValidationError (f # fs))
      | [] \<Rightarrow>
          (case d_timestamp d of
             None \<Rightarrow> Inl (ValidationError [''timestamp''])
           | Some t \<Rightarrow>
               if available st then
                 Inr (st\<lparr>events := events st @
                        [\<lparr>site_id = str_of (d_site_id d), event_type = str_of (d_event_type d),
                          path = d_path d, user_id = d_user_id d, timestamp = t\<rparr>]\<rparr>)
               else Inl StoreError))"

text \<open>
  The processor function: returning marks the job completed, throwing marks it failed.
  The catch block logs and rethrows, so the error of \<open>save\<close> is the job's failure.
\<close>

datatype job_result = Completed | Failed save_error

definition process_job :: "host \<Rightarrow> store \<Rightarrow> payload \<Rightarrow> job_result \<times> store" where
  "process_job h st data =
     (case save st (new_Event h data) of
        Inr st' \<Rightarrow> (Completed, st')
      | Inl err \<Rightarrow> (Failed err, st))"

section \<open>Reporting service\<close>

record query =
  q_site_id :: "string option"
  q_date :: "string option"

text \<open>
  The response body of both endpoints. A \<open>top_paths\<close> entry is a pair of path and views;
  the path is \<open>None\<close> where the JSON holds null.
\<close>

record stats_result =
  r_site_id :: string
  r_date :: string
  total_views :: nat
  unique_users :: nat
  top_paths :: "(string option \<times> nat) list"

text \<open>
  \<open>Malformed\<close> stands for a 200 response of \<^verbatim>\<open>GET /stats\<close> in which some \<open>views\<close> is not a
  number; its content is not modelled further.
\<close>

datatype report = Report stats_result | Malformed

text \<open>The filter shared by the \<open>find\<close> query and the \<open>$match\<close> stage.\<close>

definition matches :: "string \<Rightarrow> int \<Rightarrow> int \<Rightarrow> event \<Rightarrow> bool" where
  "matches sid startDate endDate e =
     (site_id e = sid \<and> startDate \<le> timestamp e \<and> timestamp e < endDate)"

text \<open>
  Counting by key, shared by the \<open>pathCounts\<close> object and the \<open>$group\<close> accumulator
  \<^verbatim>\<open>{ $sum: 1 }\<close>: a key seen before has its count raised in place, a new key is added
  last.
\<close>

fun bump :: "'k \<Rightarrow> ('k \<times> nat) list \<Rightarrow> ('k \<times> nat) list" where
  "bump k [] = [(k, 1)]"
| "bump k ((k', n) # kvs) = (if k = k' then (k', n + 1) # kvs else (k', n) # bump k kvs)"

text \<open>\<^verbatim>\<open>.sort((a, b) => b.views - a.views)\<close> and \<^verbatim>\<open>{ $sort: { views: -1 } }\<close>, as a stable sort.\<close>

definition sort_views_desc :: "('k \<times> nat) list \<Rightarrow> ('k \<times> nat) list" where
  "sort_views_desc xs = sort_key (\<lambda>x. - int (snd x)) xs"

subsection \<open>GET /stats: the scan strategy\<close>

text \<open>
  \<^verbatim>\<open>Event.find\<close> casts the query: an Invalid Date in the range is a cast error, which
  rejects like an unavailable store does.
\<close>

definition Event_find :: "store \<Rightarrow> string \<Rightarrow> int option \<Rightarrow> int option \<Rightarrow> event list option" where
  "Event_find st sid startDate endDate =
     (case (startDate, endDate) of
        (Some s, Some e) \<Rightarrow> if available st then Some (filter (matches sid s e) (events st)) else None
      | _ \<Rightarrow> None)"

text \<open>
  \<open>pathCounts\<close> is a plain object, so \<^verbatim>\<open>pathCounts[event.path]\<close> also reads the members
  inherited from \<open>Object.prototype\<close>. For a path named like one of its functions the
  stored value is the function's text with 1 appended, not a number; assigning to
  \<open>__proto__\<close> stores nothing.
\<close>

definition inherited_function :: "string \<Rightarrow> bool" where
  "inherited_function p =
     (p \<in> set [''constructor'', ''hasOwnProperty'', ''isPrototypeOf'', ''propertyIsEnumerable'',
               ''toLocaleString'', ''toString'', ''valueOf'', ''__defineGetter__'',
               ''__defineSetter__'', ''__lookupGetter__'', ''__lookupSetter__''])"

definition count_path :: "event \<Rightarrow> (string \<times> nat) list option \<Rightarrow> (string \<times> nat) list option" where
  "count_path e acc =
     (case acc of
        None \<Rightarrow> None
      | Some pc \<Rightarrow>
          if truthy (path e) then
            (if str_of (path e) = ''__proto__'' then Some pc
             else if inherited_function (str_of (path e)) then None
             else Some (bump (str_of (path e)) pc))
          else Some pc)"

definition pathCounts :: "event list \<Rightarrow> (string \<times> nat) list option" where
  "pathCounts evs = fold count_path evs (Some [])"

text \<open>
  \<^verbatim>\<open>Object.entries\<close> lists the keys that are array indices (canonical decimal numerals
  below \<open>2^32 - 1\<close>) first, in ascending numeric order, then the other keys in the order
  in which they were created.
\<close>

definition is_array_index :: "string \<Rightarrow> bool" where
  "is_array_index s =
     (case decimal s of
        None \<Rightarrow> False
      | Some n \<Rightarrow> n < 4294967295 \<and> (case s of [] \<Rightarrow> False | c # cs \<Rightarrow> c \<noteq> CHR ''0'' \<or> cs = []))"

definition index_value :: "string \<Rightarrow> nat" where
  "index_value s = (case decimal s of None \<Rightarrow> 0 | Some n \<Rightarrow> n)"

definition Object_entries :: "(string \<times> nat) list \<Rightarrow> (string \<times> nat) list" where
  "Object_entries obj =
     sort_key (\<lambda>kv. index_value (fst kv)) (filter (\<lambda>kv. is_array_index (fst kv)) obj) @
     filter (\<lambda>kv. \<not> is_array_index (fst kv)) obj"

definition scan_top_paths :: "(string \<times> nat) list \<Rightarrow> (string option \<times> nat) list" where
  "scan_top_paths pc =
     take 10 (sort_views_desc (map (\<lambda>kv. (Some (fst kv), snd kv)) (Object_entries pc)))"

definition scan_unique_users :: "event list \<Rightarrow> nat" where
  "scan_unique_users evs = card (set (filter truthy (map user_id evs)))"

definition stats :: "host \<Rightarrow> store \<Rightarrow> query \<Rightarrow> report response" where
  "stats h st q =
     (if \<not> truthy (q_site_id q) \<or> \<not> truthy (q_date q)
      then Err 400 ''Missing required parameters: site_id, date (YYYY-MM-DD)''
      else
        (let startDate = new_Date h (q_date q);
             endDate = setDate_plus_1 h (new_Date h (q_date q))
         in case Event_find st (str_of (q_site_id q)) startDate endDate of
              None \<Rightarrow> Err 500 ''Failed to fetch stats''
            | Some evs \<Rightarrow>
                (case pathCounts evs of
                   None \<Rightarrow> Ok200 Malformed
                 | Some pc \<Rightarrow>
                     Ok200 (Report
                       \<lparr>r_site_id = str_of (q_site_id q), r_date = str_of (q_date q),
                        total_views = length evs,
                        unique_users = scan_unique_users evs,
                        top_paths = scan_top_paths pc\<rparr>))))"

subsection \<open>GET /stats/aggregated: the engine-native strategy\<close>

text \<open>
  MongoDB leaves the order of the documents a \<open>$group\<close> stage emits unspecified, and the
  order of documents that \<open>$sort\<close> finds equal as well. The engine's choice is a parameter:
  a function that arranges the groups, applied to them in first-seen order. An engine is
  any such function that only permutes. The sort after it is modelled as stable, so every
  order the real engine may produce among equal view counts is reached by some engine.
\<close>

type_synonym engine = "(string option \<times> nat) list \<Rightarrow> (string option \<times> nat) list"

definition engine_ok :: "engine \<Rightarrow> bool" where
  "engine_ok g = (\<forall>xs. mset (g xs) = mset xs)"

definition first_seen_engine :: engine where
  "first_seen_engine xs = xs"

definition reversing_engine :: engine where
  "reversing_engine xs = rev xs"

text \<open>
  The pipeline is not cast by Mongoose. The driver writes a Date as a 64-bit integer and
  an Invalid Date as 0.
\<close>

definition bson_date :: "int option \<Rightarrow> int" where
  "bson_date d = (case d of None \<Rightarrow> 0 | Some t \<Rightarrow> t)"

text \<open>\<^verbatim>\<open>{ $count: name }\<close> emits one document holding the count, and none on empty input.\<close>

definition count_stage :: "'a list \<Rightarrow> nat list" where
  "count_stage docs = (if docs = [] then [] else [length docs])"

text \<open>
  \<^verbatim>\<open>{ $group: { _id: '$field', views: { $sum: 1 } } }\<close>: one document per distinct value
  of the field, a missing field grouped under null.
\<close>

definition group_stage :: "engine \<Rightarrow> (event \<Rightarrow> string option) \<Rightarrow> event list \<Rightarrow> (string option \<times> nat) list" where
  "group_stage g field docs = g (fold bump (map field docs) [])"

record facets =
  f_total :: "nat list"
  f_unique_users :: "nat list"
  f_top_paths :: "(string option \<times> nat) list"

definition facet_stage :: "engine \<Rightarrow> event list \<Rightarrow> facets list" where
  "facet_stage g docs =
     [\<lparr>f_total = count_stage docs,
       f_unique_users = count_stage (group_stage g user_id docs),
       f_top_paths = take 10 (sort_views_desc (group_stage g path docs))\<rparr>]"

definition Event_aggregate :: "engine \<Rightarrow> store \<Rightarrow> string \<Rightarrow> int option \<Rightarrow> int option \<Rightarrow> facets list option" where
  "Event_aggregate g st sid startDate endDate =
     (if available st
      then Some (facet_stage g (filter (matches sid (bson_date startDate) (bson_date endDate)) (events st)))
      else None)"

text \<open>\<^verbatim>\<open>xs[0]?.field || 0\<close> on a list of counts.\<close>

definition first_or_0 :: "nat list \<Rightarrow> nat" where
  "first_or_0 xs = (case xs of [] \<Rightarrow> 0 | v # _ \<Rightarrow> if v = 0 then 0 else v)"

definition stats_aggregated :: "host \<Rightarrow> engine \<Rightarrow> store \<Rightarrow> query \<Rightarrow> report response" where
  "stats_aggregated h g st q =
     (if \<not> truthy (q_site_id q) \<or> \<not> truthy (q_date q)
      then Err 400 ''Missing required parameters: site_id, date (YYYY-MM-DD)''
      else
        (let startDate = new_Date h (q_date q);
             endDate = setDate_plus_1 h (new_Date h (q_date q))
         in case Event_aggregate g st (str_of (q_site_id q)) startDate endDate of
              None \<Rightarrow> Err 500 ''Failed to fetch stats''
            | Some docs \<Rightarrow>
                Ok200 (Report
                  \<lparr>r_site_id = str_of (q_site_id q), r_date = str_of (q_date q),
                   total_views = (case docs of [] \<Rightarrow> 0 | s # _ \<Rightarrow> first_or_0 (f_total s)),
                   unique_users = (case docs of [] \<Rightarrow> 0 | s # _ \<Rightarrow> first_or_0 (f_unique_users s)),
                   top_paths = (case docs of [] \<Rightarrow> [] | s # _ \<Rightarrow> f_top_paths s)\<rparr>)))"

section \<open>Example inputs\<close>

text \<open>
  The list of missing fields that a rejection could carry: the required fields of the
  body that are falsy, in the order of the handler's test. The handler itself computes
  no such list; this definition only serves to compare its reply with one.
\<close>

definition spec_missing_fields :: "payload \<Rightarrow> string list" where
  "spec_missing_fields body =
     (if truthy (p_site_id body) then [] else [''site_id'']) @
     (if truthy (p_event_type body) then [] else [''event_type'']) @
     (if truthy (p_timestamp body) then [] else [''timestamp''])"

text \<open>The event of the README's first request, and variations of it.\<close>

definition readme_body :: payload where
  "readme_body =
     \<lparr>p_site_id = Some ''site-abc-123'', p_event_type = Some ''page_view'',
      p_path = Some ''/pricing'', p_user_id = Some ''user-xyz-789'',
      p_timestamp = Some ''2025-11-15T10:00:00Z''\<rparr>"

definition body_without_event_type :: payload where
  "body_without_event_type = readme_body\<lparr>p_event_type := None\<rparr>"

definition body_without_site_id :: payload where
  "body_without_site_id = readme_body\<lparr>p_site_id := None\<rparr>"

definition body_bad_timestamp :: payload where
  "body_bad_timestamp = readme_body\<lparr>p_timestamp := Some ''not-a-date''\<rparr>"

definition empty_queue :: queue where
  "empty_queue = \<lparr>jobs = [], reachable = True\<rparr>"


definition empty_store :: store where
  "empty_store = \<lparr>events = [], available = True\<rparr>"

definition readme_query :: query where
  "readme_query = \<lparr>q_site_id = Some ''site-abc-123'', q_date = Some ''2025-11-15''\<rparr>"

definition next_day_query :: query where
  "next_day_query = \<lparr>q_site_id = Some ''site-abc-123'', q_date = Some ''2025-11-16''\<rparr>"

definition page_view :: "string option \<Rightarrow> string option \<Rightarrow> int \<Rightarrow> event" where
  "page_view p u t =
     \<lparr>site_id = ''site-abc-123'', event_type = ''page_view'', path = p, user_id = u,
      timestamp = t\<rparr>"

text \<open>The four events of the README's walk-through, at 10:00, 10:05, 10:10 and 10:15 UTC.\<close>

definition readme_store :: store where
  "readme_store =
     \<lparr>events =
        [page_view (Some ''/pricing'') (Some ''user-1'') 1763200800000,
         page_view (Some ''/blog/post-1'') (Some ''user-2'') 1763201100000,
         page_view (Some ''/'') (Some ''user-3'') 1763201400000,
         page_view (Some ''/pricing'') (Some ''user-1'') 1763201700000],
      available = True\<rparr>"


text \<open>One page view sent without \<open>user_id\<close>, and one sent without \<open>user_id\<close> and \<open>path\<close>.\<close>

definition anonymous_store :: store where
  "anonymous_store =
     \<lparr>events = [page_view (Some ''/pricing'') None 1763200800000], available = True\<rparr>"

definition bare_store :: store where
  "bare_store = \<lparr>events = [page_view None None 1763200800000], available = True\<rparr>"



definition report_of :: "string \<Rightarrow> nat \<Rightarrow> nat \<Rightarrow> (string option \<times> nat) list \<Rightarrow> report response" where
  "report_of date t u ps =
     Ok200 (Report \<lparr>r_site_id = ''site-abc-123'', r_date = date,
                    total_views = t, unique_users = u, top_paths = ps\<rparr>)"

section \<open>Evaluating the example host\<close>

lemma utc_parse_not_a_date: "utc_parse ''not-a-date'' = None"
  by (simp add: utc_parse_def parse_ymd_def)

lemma utc_parse_readme_timestamp: "utc_parse ''2025-11-15T10:00:00Z'' = Some 1763200800000"
  by (simp add: utc_parse_def parse_ymd_def parse_time_def parse_hms_def decimal_def
      digit_of_def days_in_month_def days_from_civil_def leap_def)

lemma utc_parse_readme_date: "utc_parse ''2025-11-15'' = Some 1763164800000"
  by (simp add: utc_parse_def parse_ymd_def parse_time_def decimal_def digit_of_def
      days_in_month_def days_from_civil_def leap_def)

lemma utc_parse_next_date: "utc_parse ''2025-11-16'' = Some 1763251200000"
  by (simp add: utc_parse_def parse_ymd_def parse_time_def decimal_def digit_of_def
      days_in_month_def days_from_civil_def leap_def)

lemma utc_parse_last_ms: "utc_parse ''2025-11-15T23:59:59.999Z'' = Some 1763251199999"
  by (simp add: utc_parse_def parse_ymd_def parse_time_def parse_hms_def decimal_def
      digit_of_def days_in_month_def days_from_civil_def leap_def)

lemma utc_parse_midnight: "utc_parse ''2025-11-16T00:00:00.000Z'' = Some 1763251200000"
  by (simp add: utc_parse_def parse_ymd_def parse_time_def parse_hms_def decimal_def
      digit_of_def days_in_month_def days_from_civil_def leap_def)

section \<open>Ingestion: what POST /event checks\<close>

text \<open>
  Claim C4, as amended. A body in which \<open>site_id\<close>, \<open>event_type\<close> or \<open>timestamp\<close> is
  missing (absent or empty) is answered at once with status 400 and the fixed message
  \<^verbatim>\<open>Missing required fields: site_id, event_type, timestamp\<close>, which names all three
  required fields whichever of them are missing; the queue is left as it was, so no job
  is submitted.
\<close>

theorem post_event_rejects_missing:
  assumes "\<not> truthy (p_site_id body) \<or> \<not> truthy (p_event_type body) \<or>
           \<not> truthy (p_timestamp body)"
  shows "post_event q body =
           (Err 400 ''Missing required fields: site_id, event_type, timestamp'', q)"
  using assms by (auto simp add: post_event_def)

text \<open>The amended claim at the README event sent without \<open>event_type\<close>.\<close>

theorem post_event_rejects_missing_witness:
  "post_event empty_queue body_without_event_type =
     (Err 400 ''Missing required fields: site_id, event_type, timestamp'', empty_queue)"
  using post_event_rejects_missing [of body_without_event_type empty_queue]
  by (simp add: body_without_event_type_def readme_body_def truthy_def)

text \<open>
  Claim C4 as stated fails: the rejection does not carry the list of the missing fields.
  A body that lacks only \<open>event_type\<close> and one that lacks only \<open>site_id\<close> receive the same
  reply, whose message also names \<open>timestamp\<close>, which neither lacks.
\<close>

theorem rejection_same_for_different_missing_fields:
  "fst (post_event empty_queue body_without_event_type) =
     fst (post_event empty_queue body_without_site_id) \<and>
   fst (post_event empty_queue body_without_event_type) =
     Err 400 ''Missing required fields: site_id, event_type, timestamp'' \<and>
   spec_missing_fields body_without_event_type = [''event_type''] \<and>
   spec_missing_fields body_without_site_id = [''site_id'']"
  by (simp add: post_event_def spec_missing_fields_def body_without_event_type_def
      body_without_site_id_def readme_body_def truthy_def)

text \<open>
  Claim C3, as amended. The handler tests only that the timestamp is present. A body
  whose \<open>site_id\<close> and \<open>event_type\<close> are present and whose timestamp is a non-empty string
  that the host cannot parse is not rejected: the job is submitted with the body's
  fields unchanged and the reply is \<open>accepted\<close>, or status 500 when the submission
  throws.
\<close>

theorem post_event_accepts_unparseable_timestamp:
  assumes "truthy (p_site_id body)" and "truthy (p_event_type body)"
    and "p_timestamp body = Some ts" and "ts \<noteq> []" and "date_parse h ts = None"
  shows "post_event q body =
           (if reachable q
            then (Ok200 ''accepted'', q\<lparr>jobs := jobs q @ [(''process-event'', body)]\<rparr>)
            else (Err 500 ''Failed to accept event'', q))"
  using assms by (simp add: post_event_def Queue_add_def truthy_def)

text \<open>The amended claim at the README event with the timestamp \<^verbatim>\<open>not-a-date\<close>.\<close>

theorem post_event_accepts_unparseable_timestamp_witness:
  "post_event empty_queue body_bad_timestamp =
     (Ok200 ''accepted'', empty_queue\<lparr>jobs := [(''process-event'', body_bad_timestamp)]\<rparr>)"
  using post_event_accepts_unparseable_timestamp
    [of body_bad_timestamp "''not-a-date''" utc_host empty_queue]
  by (simp add: body_bad_timestamp_def readme_body_def truthy_def utc_host_def
      utc_parse_not_a_date empty_queue_def)

text \<open>
  Claim C3 as stated fails: the timestamp \<^verbatim>\<open>not-a-date\<close> does not parse, yet the event is
  accepted and its job is in the queue.
\<close>

theorem unparseable_timestamp_is_enqueued:
  "date_parse utc_host ''not-a-date'' = None \<and>
   post_event empty_queue body_bad_timestamp =
     (Ok200 ''accepted'',
      \<lparr>jobs = [(''process-event'', body_bad_timestamp)], reachable = True\<rparr>)"
  by (simp add: post_event_def Queue_add_def truthy_def body_bad_timestamp_def readme_body_def
      empty_queue_def utc_host_def utc_parse_not_a_date)



section \<open>Processor: validation before the write\<close>

text \<open>
  A payload whose required fields are present and whose timestamp parses is written when
  the store is available, and the job fails with the store's error otherwise.
\<close>

lemma process_job_valid_payload:
  assumes "truthy (p_site_id data)" and "truthy (p_event_type data)"
    and "new_Date h (p_timestamp data) = Some t"
  shows "process_job h st data =
           (if available st
            then (Completed, st\<lparr>events := events st @
                   [\<lparr>site_id = str_of (p_site_id data), event_type = str_of (p_event_type data),
                     path = p_path data, user_id = p_user_id data, timestamp = t\<rparr>]\<rparr>)
            else (Failed StoreError, st))"
  using assms
  by (simp add: process_job_def save_def validate_paths_def new_Event_def)

text \<open>
  Claim C8. The job's payload is checked again before the write, by the schema
  validation that \<open>save\<close> runs on the constructed document: when \<open>site_id\<close> or
  \<open>event_type\<close> is missing, or the timestamp is absent or does not parse, the list of
  failing fields is not empty, the store is left as it was and the job fails with the
  validation error instead of completing.
\<close>

theorem worker_fails_invalid_payload:
  assumes "\<not> truthy (p_site_id data) \<or> \<not> truthy (p_event_type data) \<or>
           new_Date h (p_timestamp data) = None"
  shows "validate_paths (new_Event h data) \<noteq> [] \<and>
         process_job h st data =
           (Failed (ValidationError (validate_paths (new_Event h data))), st)"
  using assms
  by (auto simp add: process_job_def save_def validate_paths_def new_Event_def
      split: list.splits)

text \<open>Claim C8 at the job that \<open>POST /event\<close> accepted with the timestamp \<^verbatim>\<open>not-a-date\<close>.\<close>

theorem worker_fails_invalid_payload_witness:
  "process_job utc_host empty_store body_bad_timestamp =
     (Failed (ValidationError [''timestamp'']), empty_store)"
  using worker_fails_invalid_payload [of body_bad_timestamp utc_host empty_store]
  by (simp add: body_bad_timestamp_def readme_body_def truthy_def utc_host_def new_Date_def
      utc_parse_not_a_date validate_paths_def new_Event_def)

section \<open>Reporting: counting by key\<close>

lemma length_bump: "length (bump k kvs) \<le> Suc (length kvs)"
  by (induction kvs) auto

lemma bump_not_Nil: "bump k kvs \<noteq> []"
  by (cases kvs) (auto split: if_splits)

lemma length_fold_bump: "length (fold bump ks acc) \<le> length acc + length ks"
proof (induction ks arbitrary: acc)
  case Nil
  then show ?case by simp
next
  case (Cons k ks)
  have "length (fold bump ks (bump k acc)) \<le> length (bump k acc) + length ks"
    by (rule Cons.IH)
  also have "\<dots> \<le> Suc (length acc) + length ks"
    using length_bump [of k acc] by simp
  finally show ?case by simp
qed

lemma keys_bump:
  "map fst (bump k kvs) = (if k \<in> set (map fst kvs) then map fst kvs else map fst kvs @ [k])"
proof (induction kvs)
  case Nil
  then show ?case by simp
next
  case (Cons kv kvs)
  obtain k' n where kv: "kv = (k', n)" by (cases kv)
  show ?case
    using Cons.IH by (cases "k = k'") (simp_all add: kv)
qed


lemma set_keys_fold_bump: "set (map fst (fold bump ks [])) = set ks"
  by (induction ks rule: rev_induct) (auto simp add: keys_bump simp del: set_map)

lemma distinct_keys_fold_bump: "distinct (map fst (fold bump ks []))"
  by (induction ks rule: rev_induct) (auto simp add: keys_bump simp del: set_map)


section \<open>Reporting: engines and stages\<close>

lemma engine_ok_length: "engine_ok g \<Longrightarrow> length (g xs) = length xs"
  unfolding engine_ok_def by (metis size_mset)

lemma engine_ok_Nil: "engine_ok g \<Longrightarrow> g [] = []"
  unfolding engine_ok_def by (metis mset_zero_iff)

lemma engine_ok_first_seen: "engine_ok first_seen_engine"
  by (simp add: engine_ok_def first_seen_engine_def)


lemma first_or_0_count_stage: "first_or_0 (count_stage xs) = length xs"
  by (simp add: first_or_0_def count_stage_def)

lemma scan_unique_users_le: "scan_unique_users evs \<le> length evs"
proof -
  have "card (set (filter truthy (map user_id evs))) \<le> length (filter truthy (map user_id evs))"
    by (rule card_length)
  also have "\<dots> \<le> length (map user_id evs)"
    by (rule length_filter_le)
  finally show ?thesis by (simp add: scan_unique_users_def)
qed

lemma length_group_stage_le: "engine_ok g \<Longrightarrow> length (group_stage g field docs) \<le> length docs"
  using length_fold_bump [of "map field docs" "[]"]
  by (simp add: group_stage_def engine_ok_length)

lemma length_fold_bump_card: "length (fold bump ks []) = card (set ks)"
proof -
  have "length (fold bump ks []) = length (map fst (fold bump ks []))"
    by simp
  also have "\<dots> = card (set (map fst (fold bump ks [])))"
    using distinct_keys_fold_bump [of ks] by (rule distinct_card [symmetric])
  also have "\<dots> = card (set ks)"
    by (simp only: set_keys_fold_bump)
  finally show ?thesis .
qed

lemma engine_ok_set: "engine_ok g \<Longrightarrow> set (g xs) = set xs"
  unfolding engine_ok_def by (metis set_mset_mset)

lemma length_group_stage: "engine_ok g \<Longrightarrow> length (group_stage g field docs) = card (set (map field docs))"
  by (simp only: group_stage_def engine_ok_length length_fold_bump_card)

lemma keys_group_stage:
  assumes "engine_ok g"
  shows "fst ` set (group_stage g field docs) = set (map field docs)"
proof -
  have "fst ` set (group_stage g field docs) = set (map fst (fold bump (map field docs) []))"
    by (simp add: group_stage_def engine_ok_set [OF assms])
  also have "\<dots> = set (map field docs)"
    by (rule set_keys_fold_bump)
  finally show ?thesis .
qed



text \<open>What a successful response of each endpoint was computed from.\<close>

lemma stats_Report:
  assumes "stats h st q = Ok200 (Report r)"
  shows "\<exists>start pc.
           new_Date h (q_date q) = Some start \<and> available st \<and>
           pathCounts (filter (matches (str_of (q_site_id q)) start (next_day h start)) (events st)) =
             Some pc \<and>
           total_views r =
             length (filter (matches (str_of (q_site_id q)) start (next_day h start)) (events st)) \<and>
           unique_users r =
             scan_unique_users
               (filter (matches (str_of (q_site_id q)) start (next_day h start)) (events st)) \<and>
           top_paths r = scan_top_paths pc"
  using assms
  by (auto simp add: stats_def Event_find_def setDate_plus_1_def Let_def
      split: if_splits option.splits)

lemma stats_aggregated_Report:
  assumes "stats_aggregated h g st q = Ok200 (Report r)"
    and "docs = filter (matches (str_of (q_site_id q)) (bson_date (new_Date h (q_date q)))
                  (bson_date (setDate_plus_1 h (new_Date h (q_date q))))) (events st)"
  shows "available st \<and> total_views r = length docs \<and>
         unique_users r = length (group_stage g user_id docs) \<and>
         top_paths r = take 10 (sort_views_desc (group_stage g path docs))"
  using assms
  by (auto simp add: stats_aggregated_def Event_aggregate_def facet_stage_def Let_def
      first_or_0_count_stage split: if_splits)

section \<open>Reporting: order among entries\<close>
















section \<open>Reporting: the endpoints on the example stores\<close>

lemmas scan_eval =
  stats_def truthy_def str_of_def new_Date_def setDate_plus_1_def utc_host_def
  Event_find_def matches_def page_view_def pathCounts_def count_path_def
  inherited_function_def scan_unique_users_def scan_top_paths_def Object_entries_def
  is_array_index_def index_value_def decimal_def digit_of_def sort_views_desc_def report_of_def
  card_insert_if

lemmas aggregated_eval =
  stats_aggregated_def truthy_def str_of_def new_Date_def setDate_plus_1_def
  utc_host_def Event_aggregate_def bson_date_def matches_def page_view_def
  facet_stage_def group_stage_def count_stage_def first_or_0_def sort_views_desc_def
  first_seen_engine_def reversing_engine_def report_of_def

lemma stats_readme:
  "stats utc_host readme_store readme_query =
     report_of ''2025-11-15'' 4 3
       [(Some ''/pricing'', 2), (Some ''/blog/post-1'', 1), (Some ''/'', 1)]"
  by (simp add: scan_eval readme_query_def utc_parse_readme_date readme_store_def)

lemma stats_aggregated_readme:
  "stats_aggregated utc_host first_seen_engine readme_store readme_query =
     report_of ''2025-11-15'' 4 3
       [(Some ''/pricing'', 2), (Some ''/blog/post-1'', 1), (Some ''/'', 1)]"
  by (simp add: aggregated_eval readme_query_def utc_parse_readme_date readme_store_def)



lemma stats_anonymous:
  "stats utc_host anonymous_store readme_query =
     report_of ''2025-11-15'' 1 0 [(Some ''/pricing'', 1)]"
  by (simp add: scan_eval readme_query_def utc_parse_readme_date anonymous_store_def)

lemma stats_aggregated_anonymous:
  "stats_aggregated utc_host first_seen_engine anonymous_store readme_query =
     report_of ''2025-11-15'' 1 1 [(Some ''/pricing'', 1)]"
  by (simp add: aggregated_eval readme_query_def utc_parse_readme_date anonymous_store_def)

lemma stats_bare:
  "stats utc_host bare_store readme_query = report_of ''2025-11-15'' 1 0 []"
  by (simp add: scan_eval readme_query_def utc_parse_readme_date bare_store_def)

lemma stats_aggregated_bare:
  "stats_aggregated utc_host first_seen_engine bare_store readme_query =
     report_of ''2025-11-15'' 1 1 [(None, 1)]"
  by (simp add: aggregated_eval readme_query_def utc_parse_readme_date bare_store_def)

text \<open>
  The two stores with a missing field are what the write path produces: the README
  event sent without \<open>user_id\<close>, and without \<open>user_id\<close> and \<open>path\<close>, is accepted by
  \<open>POST /event\<close> and written by the worker.
\<close>

lemma anonymous_store_written:
  "post_event empty_queue (readme_body\<lparr>p_user_id := None\<rparr>) =
     (Ok200 ''accepted'',
      \<lparr>jobs = [(''process-event'', readme_body\<lparr>p_user_id := None\<rparr>)], reachable = True\<rparr>) \<and>
   process_job utc_host empty_store (readme_body\<lparr>p_user_id := None\<rparr>) =
     (Completed, anonymous_store)"
  by (simp add: post_event_def Queue_add_def empty_queue_def readme_body_def truthy_def
      process_job_def save_def validate_paths_def new_Event_def new_Date_def utc_host_def
      utc_parse_readme_timestamp empty_store_def anonymous_store_def page_view_def str_of_def)

lemma bare_store_written:
  "post_event empty_queue (readme_body\<lparr>p_user_id := None, p_path := None\<rparr>) =
     (Ok200 ''accepted'',
      \<lparr>jobs = [(''process-event'', readme_body\<lparr>p_user_id := None, p_path := None\<rparr>)],
       reachable = True\<rparr>) \<and>
   process_job utc_host empty_store (readme_body\<lparr>p_user_id := None, p_path := None\<rparr>) =
     (Completed, bare_store)"
  by (simp add: post_event_def Queue_add_def empty_queue_def readme_body_def truthy_def
      process_job_def save_def validate_paths_def new_Event_def new_Date_def utc_host_def
      utc_parse_readme_timestamp empty_store_def bare_store_def page_view_def str_of_def)

section \<open>Reporting: the claims\<close>

text \<open>
  Claim C1 fails, and on every store in which an event that matches the query carries
  no \<open>user_id\<close>: the scan strategy drops the missing value with \<^verbatim>\<open>.filter(Boolean)\<close>, the
  engine-native strategy counts it, because \<open>$group\<close> collects it under the key null and
  \<open>$count\<close> counts that group. The engine-native \<open>unique_users\<close> is then the larger one, so
  the two responses differ.
\<close>

theorem strategies_differ_on_missing_user_id:
  assumes "engine_ok g"
    and "stats h st q = Ok200 (Report r)"
    and "stats_aggregated h g st q = Ok200 (Report r')"
    and "new_Date h (q_date q) = Some start"
    and "e \<in> set (events st)"
    and "site_id e = str_of (q_site_id q)"
    and "start \<le> timestamp e" and "timestamp e < next_day h start"
    and "user_id e = None"
  shows "unique_users r < unique_users r' \<and> stats h st q \<noteq> stats_aggregated h g st q"
proof -
  let ?docs = "filter (matches (str_of (q_site_id q)) start (next_day h start)) (events st)"
  have e: "e \<in> set ?docs"
    using assms(5-8) by (simp add: matches_def)
  have scan: "unique_users r = card (set (filter truthy (map user_id ?docs)))"
    using stats_Report [OF assms(2)] assms(4) by (auto simp add: scan_unique_users_def)
  have agg: "unique_users r' = card (set (map user_id ?docs))"
    using stats_aggregated_Report [OF assms(3) refl] assms(4)
    by (simp add: length_group_stage [OF assms(1)] bson_date_def setDate_plus_1_def)
  have "None \<in> set (map user_id ?docs)"
    using e assms(9) by force
  moreover have "None \<notin> set (filter truthy (map user_id ?docs))"
    by (simp add: truthy_def)
  ultimately have "set (filter truthy (map user_id ?docs)) \<subset> set (map user_id ?docs)"
    by auto
  then have "card (set (filter truthy (map user_id ?docs))) < card (set (map user_id ?docs))"
    by (intro psubset_card_mono) simp_all
  then have lt: "unique_users r < unique_users r'"
    by (simp only: scan agg)
  then have "r \<noteq> r'" by auto
  with lt show ?thesis
    by (simp add: assms(2,3))
qed

text \<open>
  The store holding the single page view of \<open>/pricing\<close> that carries no \<open>user_id\<close>:
  \<open>GET /stats\<close> reports 0 unique users and \<open>GET /stats/aggregated\<close> reports 1.
\<close>

theorem strategies_differ_on_missing_user_id_witness:
  "stats utc_host anonymous_store readme_query =
     report_of ''2025-11-15'' 1 0 [(Some ''/pricing'', 1)] \<and>
   stats_aggregated utc_host first_seen_engine anonymous_store readme_query =
     report_of ''2025-11-15'' 1 1 [(Some ''/pricing'', 1)] \<and>
   stats utc_host anonymous_store readme_query \<noteq>
     stats_aggregated utc_host first_seen_engine anonymous_store readme_query"
proof -
  let ?e = "page_view (Some ''/pricing'') None 1763200800000"
  have scan: "stats utc_host anonymous_store readme_query =
      Ok200 (Report \<lparr>r_site_id = ''site-abc-123'', r_date = ''2025-11-15'', total_views = 1,
                     unique_users = 0, top_paths = [(Some ''/pricing'', 1)]\<rparr>)"
    by (simp add: stats_anonymous report_of_def)
  have agg: "stats_aggregated utc_host first_seen_engine anonymous_store readme_query =
      Ok200 (Report \<lparr>r_site_id = ''site-abc-123'', r_date = ''2025-11-15'', total_views = 1,
                     unique_users = 1, top_paths = [(Some ''/pricing'', 1)]\<rparr>)"
    by (simp add: stats_aggregated_anonymous report_of_def)
  have parse: "new_Date utc_host (q_date readme_query) = Some 1763164800000"
    by (simp add: readme_query_def new_Date_def utc_host_def utc_parse_readme_date)
  have e: "?e \<in> set (events anonymous_store)"
    "site_id ?e = str_of (q_site_id readme_query)"
    "1763164800000 \<le> timestamp ?e" "timestamp ?e < next_day utc_host 1763164800000"
    "user_id ?e = None"
    by (simp_all add: anonymous_store_def page_view_def readme_query_def str_of_def utc_host_def)
  from strategies_differ_on_missing_user_id [OF engine_ok_first_seen scan agg parse e]
  show ?thesis
    by (simp add: stats_anonymous stats_aggregated_anonymous)
qed

text \<open>
  Claim C2 fails for the engine-native strategy. Its \<open>unique_users\<close> is the number of
  distinct \<open>user_id\<close> values of the matching events with the missing value counted as
  one of them, and when a matching event has no \<open>path\<close> and the limit of 10 cuts nothing
  off, \<open>top_paths\<close> holds an entry whose path is null.
\<close>

theorem aggregated_counts_missing_values:
  assumes "engine_ok g"
    and "stats_aggregated h g st q = Ok200 (Report r)"
    and "new_Date h (q_date q) = Some start"
    and "docs = filter (\<lambda>e. site_id e = str_of (q_site_id q) \<and> start \<le> timestamp e \<and>
                              timestamp e < next_day h start) (events st)"
  shows "unique_users r = card (set (map user_id docs)) \<and>
         (None \<in> set (map path docs) \<and> card (set (map path docs)) \<le> 10 \<longrightarrow>
            None \<in> fst ` set (top_paths r))"
proof -
  have docs: "docs = filter (matches (str_of (q_site_id q)) (bson_date (new_Date h (q_date q)))
                  (bson_date (setDate_plus_1 h (new_Date h (q_date q))))) (events st)"
    by (simp add: assms(3,4) matches_def [abs_def] bson_date_def setDate_plus_1_def)
  note R = stats_aggregated_Report [OF assms(2) docs]
  have users: "unique_users r = card (set (map user_id docs))"
    using R by (simp add: length_group_stage [OF assms(1)])
  have paths: "None \<in> fst ` set (top_paths r)"
    if "None \<in> set (map path docs)" and "card (set (map path docs)) \<le> 10"
  proof -
    have "length (sort_views_desc (group_stage g path docs)) \<le> 10"
      using that(2) by (simp add: sort_views_desc_def length_group_stage [OF assms(1)])
    then have "top_paths r = sort_views_desc (group_stage g path docs)"
      using R by simp
    then have "fst ` set (top_paths r) = set (map path docs)"
      by (simp add: sort_views_desc_def keys_group_stage [OF assms(1)] del: set_map)
    with that(1) show ?thesis by simp
  qed
  from users paths show ?thesis by blast
qed

text \<open>
  The store holding the single page view that carries neither \<open>user_id\<close> nor \<open>path\<close>:
  \<open>GET /stats/aggregated\<close> counts one unique user and lists the path null with one view,
  \<open>GET /stats\<close> counts no user and lists no path.
\<close>

theorem aggregated_counts_missing_values_witness:
  "stats_aggregated utc_host first_seen_engine bare_store readme_query =
     report_of ''2025-11-15'' 1 1 [(None, 1)] \<and>
   stats utc_host bare_store readme_query = report_of ''2025-11-15'' 1 0 [] \<and>
   map user_id (events bare_store) = [None] \<and> map path (events bare_store) = [None]"
proof -
  let ?r = "\<lparr>r_site_id = ''site-abc-123'', r_date = ''2025-11-15'', total_views = 1,
             unique_users = 1, top_paths = [(None :: string option, 1 :: nat)]\<rparr>"
  have agg: "stats_aggregated utc_host first_seen_engine bare_store readme_query =
      Ok200 (Report ?r)"
    by (simp add: stats_aggregated_bare report_of_def)
  have parse: "new_Date utc_host (q_date readme_query) = Some 1763164800000"
    by (simp add: readme_query_def new_Date_def utc_host_def utc_parse_readme_date)
  have docs: "events bare_store =
      filter (\<lambda>e. site_id e = str_of (q_site_id readme_query) \<and> 1763164800000 \<le> timestamp e \<and>
                   timestamp e < next_day utc_host 1763164800000) (events bare_store)"
    by (simp add: bare_store_def page_view_def readme_query_def str_of_def utc_host_def)
  have fields: "map user_id (events bare_store) = [None]" "map path (events bare_store) = [None]"
    by (simp_all add: bare_store_def page_view_def)
  from aggregated_counts_missing_values [OF engine_ok_first_seen agg parse docs]
  have "unique_users ?r = card (set (map user_id (events bare_store))) \<and>
        None \<in> fst ` set (top_paths ?r)"
    by (simp add: fields)
  then show ?thesis
    by (simp add: stats_bare stats_aggregated_bare fields)
qed

text \<open>
  Claim C5. Whenever either endpoint answers with a StatsResult, its \<open>unique_users\<close> is
  at most its \<open>total_views\<close>, and its \<open>total_views\<close> is the number of events in the store
  whose \<open>site_id\<close> is the requested one and whose timestamp lies in the window that starts
  at the parsed date and ends one calendar day later.
\<close>

theorem unique_le_total_and_total_counts_matches:
  assumes "engine_ok g"
    and "stats h st q = Ok200 (Report r) \<or> stats_aggregated h g st q = Ok200 (Report r)"
  shows "unique_users r \<le> total_views r \<and>
         (\<forall>start. new_Date h (q_date q) = Some start \<longrightarrow>
            total_views r =
              length (filter (\<lambda>e. site_id e = str_of (q_site_id q) \<and> start \<le> timestamp e \<and>
                                   timestamp e < next_day h start) (events st)))"
  using assms(2)
proof
  assume "stats h st q = Ok200 (Report r)"
  then show ?thesis
    using stats_Report [of h st q r]
    by (auto simp add: scan_unique_users_le matches_def [abs_def])
next
  assume a: "stats_aggregated h g st q = Ok200 (Report r)"
  show ?thesis
    using stats_aggregated_Report [OF a refl] length_group_stage_le [OF assms(1)]
    by (auto simp add: matches_def [abs_def] bson_date_def setDate_plus_1_def)
qed

text \<open>Claim C5 on the README's four events, for which both endpoints give the same numbers.\<close>

theorem unique_le_total_and_total_counts_matches_witness:
  "stats utc_host readme_store readme_query =
     Ok200 (Report \<lparr>r_site_id = ''site-abc-123'', r_date = ''2025-11-15'', total_views = 4,
                    unique_users = 3,
                    top_paths = [(Some ''/pricing'', 2), (Some ''/blog/post-1'', 1),
                                 (Some ''/'', 1)]\<rparr>) \<and>
   (3::nat) \<le> 4 \<and>
   length (filter (\<lambda>e. site_id e = ''site-abc-123'' \<and> 1763164800000 \<le> timestamp e \<and>
                        timestamp e < 1763164800000 + 86400000) (events readme_store)) = 4"
  using unique_le_total_and_total_counts_matches
    [of first_seen_engine utc_host readme_store readme_query
        "\<lparr>r_site_id = ''site-abc-123'', r_date = ''2025-11-15'', total_views = 4,
          unique_users = 3,
          top_paths = [(Some ''/pricing'', 2), (Some ''/blog/post-1'', 1), (Some ''/'', 1)]\<rparr>"]
    engine_ok_first_seen stats_readme
  by (simp add: report_of_def readme_query_def new_Date_def utc_host_def utc_parse_readme_date
      str_of_def)







text \<open>
  Claim C10. When no event of the store has the requested \<open>site_id\<close> and a timestamp in
  the day's window, the \<open>$facet\<close> stage still emits its one document, with three empty
  lists because \<open>$count\<close> emits nothing on empty input, and the handler's defaults turn it
  into a StatsResult with \<open>total_views = 0\<close>, \<open>unique_users = 0\<close> and \<open>top_paths = []\<close>.
\<close>

theorem aggregated_empty_match:
  assumes "truthy (q_site_id q)" and "truthy (q_date q)" and "available st" and "engine_ok g"
    and "new_Date h (q_date q) = Some start"
    and "\<forall>e \<in> set (events st).
           \<not> (site_id e = str_of (q_site_id q) \<and> start \<le> timestamp e \<and>
              timestamp e < next_day h start)"
  shows "Event_aggregate g st (str_of (q_site_id q)) (Some start) (Some (next_day h start)) =
           Some [\<lparr>f_total = [], f_unique_users = [], f_top_paths = []\<rparr>] \<and>
         stats_aggregated h g st q =
           Ok200 (Report \<lparr>r_site_id = str_of (q_site_id q), r_date = str_of (q_date q),
                          total_views = 0, unique_users = 0, top_paths = []\<rparr>)"
proof -
  have none: "filter (matches (str_of (q_site_id q)) start (next_day h start)) (events st) = []"
    using assms(6) by (auto simp add: filter_empty_conv matches_def)
  have facet: "facet_stage g [] = [\<lparr>f_total = [], f_unique_users = [], f_top_paths = []\<rparr>]"
    by (simp add: facet_stage_def count_stage_def group_stage_def sort_views_desc_def
        engine_ok_Nil [OF assms(4)])
  show ?thesis
    using assms(1-3,5) none facet
    by (simp add: stats_aggregated_def Event_aggregate_def bson_date_def setDate_plus_1_def
        first_or_0_def)
qed

text \<open>Claim C10 on the README's four events, all of 2025-11-15, queried for 2025-11-16.\<close>

theorem aggregated_empty_match_witness:
  "stats_aggregated utc_host first_seen_engine readme_store next_day_query =
     Ok200 (Report \<lparr>r_site_id = ''site-abc-123'', r_date = ''2025-11-16'',
                    total_views = 0, unique_users = 0, top_paths = []\<rparr>)"
  using aggregated_empty_match
    [of next_day_query readme_store first_seen_engine utc_host 1763251200000]
    engine_ok_first_seen
  by (simp add: next_day_query_def readme_store_def truthy_def str_of_def new_Date_def
      utc_host_def utc_parse_next_date page_view_def)




end
